theory Spec2Isabelle
  imports Complex_Main
begin

section \<open>JavaScript numbers and the primitives used by \<open>script.js\<close>\<close>

text \<open>
  A JavaScript number is modelled as a real number or one of the three special values
  of IEEE 754. Arithmetic on finite values is exact real arithmetic: rounding, overflow
  to infinity, underflow and the sign of zero are not modelled. The special values
  follow the language: an operation on \<open>NaN\<close> yields \<open>NaN\<close>, every comparison with
  \<open>NaN\<close> is false, and no arithmetic operation raises.
\<close>

datatype jsnum = Fin real | PosInf | NegInf | NaN

fun jsign :: "jsnum \<Rightarrow> real" where
  "jsign (Fin a) = sgn a"
| "jsign PosInf = 1"
| "jsign NegInf = - 1"
| "jsign NaN = 0"

definition ofSign :: "real \<Rightarrow> jsnum" where
  "ofSign s = (if 0 < s then PosInf else if s < 0 then NegInf else NaN)"

fun jneg :: "jsnum \<Rightarrow> jsnum" where
  "jneg (Fin a) = Fin (- a)"
| "jneg PosInf = NegInf"
| "jneg NegInf = PosInf"
| "jneg NaN = NaN"

fun jadd :: "jsnum \<Rightarrow> jsnum \<Rightarrow> jsnum" where
  "jadd NaN b = NaN"
| "jadd a NaN = NaN"
| "jadd (Fin a) (Fin b) = Fin (a + b)"
| "jadd PosInf NegInf = NaN"
| "jadd NegInf PosInf = NaN"
| "jadd (Fin a) b = b"
| "jadd a b = a"

definition jsub :: "jsnum \<Rightarrow> jsnum \<Rightarrow> jsnum" where
  "jsub a b = jadd a (jneg b)"

fun jmul :: "jsnum \<Rightarrow> jsnum \<Rightarrow> jsnum" where
  "jmul NaN b = NaN"
| "jmul a NaN = NaN"
| "jmul (Fin a) (Fin b) = Fin (a * b)"
| "jmul a b = ofSign (jsign a * jsign b)"

fun jdiv :: "jsnum \<Rightarrow> jsnum \<Rightarrow> jsnum" where
  "jdiv NaN b = NaN"
| "jdiv a NaN = NaN"
| "jdiv (Fin a) (Fin b) = (if b = 0 then ofSign (sgn a) else Fin (a / b))"
| "jdiv (Fin a) b = Fin 0"
| "jdiv a (Fin b) = ofSign (jsign a * (if b < 0 then - 1 else 1))"
| "jdiv a b = NaN"

fun jsqrt :: "jsnum \<Rightarrow> jsnum" where
  "jsqrt (Fin a) = (if a < 0 then NaN else Fin (sqrt a))"
| "jsqrt PosInf = PosInf"
| "jsqrt NegInf = NaN"
| "jsqrt NaN = NaN"

fun jlt :: "jsnum \<Rightarrow> jsnum \<Rightarrow> bool" where
  "jlt NaN b = False"
| "jlt a NaN = False"
| "jlt (Fin a) (Fin b) = (a < b)"
| "jlt PosInf b = False"
| "jlt a NegInf = False"
| "jlt a b = True"

definition jgt :: "jsnum \<Rightarrow> jsnum \<Rightarrow> bool" where
  "jgt a b = jlt b a"

text \<open>\<open>Math.max\<close> and \<open>Math.min\<close> of two arguments: \<open>NaN\<close> if either is \<open>NaN\<close>.\<close>

definition Math_max :: "jsnum \<Rightarrow> jsnum \<Rightarrow> jsnum" where
  "Math_max a b = (if a = NaN \<or> b = NaN then NaN else if jlt a b then b else a)"

definition Math_min :: "jsnum \<Rightarrow> jsnum \<Rightarrow> jsnum" where
  "Math_min a b = (if a = NaN \<or> b = NaN then NaN else if jlt b a then b else a)"

definition Math_PI :: jsnum where
  "Math_PI = Fin pi"

text \<open>Truthiness of a number: \<open>0\<close> and \<open>NaN\<close> are falsy. \<open>a || b\<close> on numbers.\<close>

fun truthyNum :: "jsnum \<Rightarrow> bool" where
  "truthyNum (Fin a) = (a \<noteq> 0)"
| "truthyNum NaN = False"
| "truthyNum PosInf = True"
| "truthyNum NegInf = True"

definition jor :: "jsnum \<Rightarrow> jsnum \<Rightarrow> jsnum" where
  "jor a b = (if truthyNum a then a else b)"


subsection \<open>Primitive values and \<open>parseFloat\<close>\<close>

text \<open>
  The fields of a monitor configuration hold primitive values: the application stores
  numbers and booleans, the input elements of the page deliver strings. Objects and
  symbols are outside the model.
\<close>

datatype jsval = JNum jsnum | JStr string | JBool bool | JUndefined | JNull

fun truthy :: "jsval \<Rightarrow> bool" where
  "truthy (JNum n) = truthyNum n"
| "truthy (JStr s) = (s \<noteq> [])"
| "truthy (JBool b) = b"
| "truthy JUndefined = False"
| "truthy JNull = False"

text \<open>
  \<open>parseFloat\<close> converts its argument to a string, skips leading white space and reads
  the longest prefix that is a decimal literal: an optional sign, then \<open>Infinity\<close> or
  digits with an optional fraction and an optional exponent. No such prefix gives
  \<open>NaN\<close>. The value read is the exact decimal value. Characters are ASCII.
\<close>

definition isWhite :: "char \<Rightarrow> bool" where
  "isWhite c = ((of_char c :: nat) \<in> {9, 10, 11, 12, 13, 32})"

definition isDigit :: "char \<Rightarrow> bool" where
  "isDigit c = (48 \<le> (of_char c :: nat) \<and> (of_char c :: nat) \<le> 57)"

definition digitVal :: "char \<Rightarrow> nat" where
  "digitVal c = of_char c - 48"

fun digitsVal :: "nat \<Rightarrow> string \<Rightarrow> nat" where
  "digitsVal acc [] = acc"
| "digitsVal acc (c # cs) = digitsVal (10 * acc + digitVal c) cs"

definition exponentOf :: "string \<Rightarrow> int" where
  "exponentOf s =
     (case s of
        [] \<Rightarrow> 0
      | c # t \<Rightarrow>
          if c = CHR ''e'' \<or> c = CHR ''E'' then
            (case t of
               [] \<Rightarrow> 0
             | d # u \<Rightarrow>
                 if d = CHR ''-'' then - int (digitsVal 0 (takeWhile isDigit u))
                 else if d = CHR ''+'' then int (digitsVal 0 (takeWhile isDigit u))
                 else int (digitsVal 0 (takeWhile isDigit t)))
          else 0)"

definition parseDecimal :: "string \<Rightarrow> jsnum" where
  "parseDecimal s =
     (if take 8 s = ''Infinity'' then PosInf
      else
        let ip = takeWhile isDigit s;
            r1 = dropWhile isDigit s;
            fp = (case r1 of [] \<Rightarrow> [] | c # t \<Rightarrow> if c = CHR ''.'' then takeWhile isDigit t else []);
            r2 = (case r1 of [] \<Rightarrow> [] | c # t \<Rightarrow> if c = CHR ''.'' then dropWhile isDigit t else r1)
        in if ip = [] \<and> fp = [] then NaN
           else Fin ((real (digitsVal 0 ip) + real (digitsVal 0 fp) / 10 ^ length fp)
                       * 10 powi exponentOf r2))"

definition parseFloatStr :: "string \<Rightarrow> jsnum" where
  "parseFloatStr s =
     (case dropWhile isWhite s of
        [] \<Rightarrow> NaN
      | c # u \<Rightarrow>
          if c = CHR ''-'' then jneg (parseDecimal u)
          else if c = CHR ''+'' then parseDecimal u
          else parseDecimal (c # u))"

text \<open>
  A number converted to a string and parsed again is the same number, so a number
  passes through \<open>parseFloat\<close> unchanged; \<open>true\<close>, \<open>false\<close>, \<open>undefined\<close> and \<open>null\<close>
  are parsed as their names.
\<close>

fun parseFloat :: "jsval \<Rightarrow> jsnum" where
  "parseFloat (JNum n) = n"
| "parseFloat (JStr s) = parseFloatStr s"
| "parseFloat (JBool b) = parseFloatStr (if b then ''true'' else ''false'')"
| "parseFloat JUndefined = parseFloatStr ''undefined''"
| "parseFloat JNull = parseFloatStr ''null''"

section \<open>MonitorFactory\<close>

text \<open>
  The configuration object that \<open>createMonitor\<close> destructures; \<open>cid\<close> and \<open>cname\<close> are
  its fields \<open>id\<close> and \<open>name\<close>.
\<close>

record config =
  cid :: nat
  cname :: string
  inches :: jsval
  ratioW :: jsval
  ratioH :: jsval
  curvature :: jsval
  isPortrait :: jsval
  locked :: jsval

text \<open>
  The objects handed to the rendering library are recorded by the arguments they are
  built from and the operations applied to them, in order; the library's meshing of
  them is not modelled. The arguments are, in the order of the source:
  \<open>PlaneGeometry\<close> width, height; \<open>BoxGeometry\<close> width, height, depth;
  \<open>CylinderGeometry\<close> radiusTop, radiusBottom, height, radialSegments, heightSegments,
  openEnded, thetaStart, thetaLength; \<open>ExtrudeGeometry\<close> the arcs of the shape, depth,
  bevelEnabled, curveSegments; \<open>Absarc\<close> x, y, radius, startAngle, endAngle, clockwise.
  The \<open>center\<close> and \<open>repeat\<close> of a texture are \<open>None\<close> until the code sets them, and
  the user data of a group is \<open>None\<close> until the code assigns the object.
\<close>

record vec3 =
  vx :: jsnum
  vy :: jsnum
  vz :: jsnum

record texture =
  label_name :: string
  label_inches :: jsnum
  label_rW :: jsnum
  label_rH :: jsnum
  canvas_width :: jsnum
  canvas_height :: jsnum
  center :: "(jsnum \<times> jsnum) option"
  repeat :: "(jsnum \<times> jsnum) option"

datatype material = BodyMaterial | ScreenMaterial texture

datatype path = Absarc jsnum jsnum jsnum jsnum jsnum bool

datatype geometry =
    PlaneGeometry jsnum jsnum
  | BoxGeometry jsnum jsnum jsnum
  | CylinderGeometry jsnum jsnum jsnum nat nat bool jsnum jsnum
  | ExtrudeGeometry "path list" jsnum bool nat

datatype geomOp = Translate jsnum jsnum jsnum | RotateX jsnum | RotateY jsnum

record mesh =
  geometry :: geometry
  geomOps :: "geomOp list"
  material :: material
  frustumCulled :: bool
  parentId :: "nat option"
  isMonitorPart :: bool

record userdata =
  ud_id :: nat
  ud_isMonitor :: bool
  ud_distanceToBottom :: jsnum
  ud_locked :: bool
  ud_parentId :: "nat option"
  ud_isMonitorPart :: bool

record group =
  children :: "mesh list"
  position :: vec3
  rotation :: vec3
  userData :: "userdata option"

text \<open>A new \<open>THREE.Group\<close>: no children, at the origin, not rotated, empty user data.\<close>

definition newGroup :: group where
  "newGroup =
     \<lparr>children = [],
      position = \<lparr>vx = Fin 0, vy = Fin 0, vz = Fin 0\<rparr>,
      rotation = \<lparr>vx = Fin 0, vy = Fin 0, vz = Fin 0\<rparr>,
      userData = None\<rparr>"

text \<open>A new \<open>THREE.Mesh\<close> whose \<open>frustumCulled\<close> is then set to \<open>false\<close>.\<close>

definition newMesh :: "geometry \<Rightarrow> geomOp list \<Rightarrow> material \<Rightarrow> mesh" where
  "newMesh g ops m =
     \<lparr>geometry = g, geomOps = ops, material = m, frustumCulled = False,
      parentId = None, isMonitorPart = False\<rparr>"

text \<open>\<open>createScreenTexture\<close>: the canvas size and the label; the drawing is not modelled.\<close>

definition createScreenTexture :: "string \<Rightarrow> jsnum \<Rightarrow> jsnum \<Rightarrow> jsnum \<Rightarrow> texture" where
  "createScreenTexture nm inch rW rH =
     (let safeRW = Math_max (Fin 0.1) (jor (parseFloat (JNum rW)) (Fin 1));
          safeRH = Math_max (Fin 0.1) (jor (parseFloat (JNum rH)) (Fin 1))
      in \<lparr>label_name = nm, label_inches = inch, label_rW = rW, label_rH = rH,
          canvas_width = Fin 1024,
          canvas_height = Math_min (Fin 8192) (jmul (jdiv (Fin 1024) safeRW) safeRH),
          center = None, repeat = None\<rparr>)"

text \<open>The local variables of \<open>createMonitor\<close>, lines 12 to 29, 64, 65 and 105.\<close>

definition inches' :: "config \<Rightarrow> jsnum" where
  "inches' c = Math_max (Fin 1) (jor (parseFloat (inches c)) (Fin 27))"

definition ratioW' :: "config \<Rightarrow> jsnum" where
  "ratioW' c = Math_max (Fin 0.1) (jor (parseFloat (ratioW c)) (Fin 16))"

definition ratioH' :: "config \<Rightarrow> jsnum" where
  "ratioH' c = Math_max (Fin 0.1) (jor (parseFloat (ratioH c)) (Fin 9))"

definition diagonalMm :: "config \<Rightarrow> jsnum" where
  "diagonalMm c = jmul (inches' c) (Fin 25.4)"

definition ratio :: "config \<Rightarrow> jsnum" where
  "ratio c = jdiv (ratioW' c) (ratioH' c)"

definition heightMm :: "config \<Rightarrow> jsnum" where
  "heightMm c =
     jsqrt (jdiv (jmul (diagonalMm c) (diagonalMm c))
                 (jadd (jmul (ratio c) (ratio c)) (Fin 1)))"

definition widthMm :: "config \<Rightarrow> jsnum" where
  "widthMm c = jmul (heightMm c) (ratio c)"

definition radius :: "config \<Rightarrow> jsnum" where
  "radius c = parseFloat (curvature c)"

definition isValidCurvature :: "config \<Rightarrow> bool" where
  "isValidCurvature c =
     (if jgt (radius c) (Fin 0) \<and> jlt (radius c) (Fin 10000) then
        (let perimeter = jmul (jmul (Fin 2) Math_PI) (radius c)
         in if jlt (widthMm c) (jmul perimeter (Fin 0.95)) then True else False)
      else False)"

definition theta :: "config \<Rightarrow> jsnum" where
  "theta c = jdiv (widthMm c) (radius c)"

definition thetaStart :: "config \<Rightarrow> jsnum" where
  "thetaStart c = jsub Math_PI (jdiv (theta c) (Fin 2))"

definition distanceToBottom :: "config \<Rightarrow> jsnum" where
  "distanceToBottom c =
     jdiv (if truthy (isPortrait c) then widthMm c else heightMm c) (Fin 2)"

text \<open>\<open>group.traverse\<close> visits the group itself and then its children.\<close>

definition traverseTag :: "nat \<Rightarrow> group \<Rightarrow> group" where
  "traverseTag i g =
     g\<lparr>userData := map_option (\<lambda>u. u\<lparr>ud_parentId := Some i, ud_isMonitorPart := True\<rparr>) (userData g),
       children := map (\<lambda>m. m\<lparr>parentId := Some i, isMonitorPart := True\<rparr>) (children g)\<rparr>"

definition createMonitor :: "config \<Rightarrow> group" where
  "createMonitor c =
     (let texture = createScreenTexture (cname c) (inches' c) (ratioW' c) (ratioH' c);
          group0 = newGroup;
          group1 =
            (if \<not> isValidCurvature c then
               let screenMesh =
                     newMesh (PlaneGeometry (widthMm c) (heightMm c)) []
                       (ScreenMaterial texture);
                   bodyMesh =
                     newMesh (BoxGeometry (widthMm c) (heightMm c) (Fin 20))
                       [Translate (Fin 0) (Fin 0) (Fin (- 10.1))] BodyMaterial
               in group0\<lparr>children := [bodyMesh, screenMesh]\<rparr>
             else
               let screenMesh =
                     newMesh
                       (CylinderGeometry (radius c) (radius c) (heightMm c) 32 1 True
                          (thetaStart c) (theta c))
                       [Translate (Fin 0) (Fin 0) (jadd (radius c) (Fin 0.5))]
                       (ScreenMaterial
                          (texture\<lparr>center := Some (Fin 0.5, Fin 0.5),
                                   repeat := Some (Fin (- 1), Fin 1)\<rparr>));
                   shape =
                     [Absarc (Fin 0) (Fin 0) (radius c)
                        (jdiv (jneg (theta c)) (Fin 2)) (jdiv (theta c) (Fin 2)) False,
                      Absarc (Fin 0) (Fin 0) (jadd (radius c) (Fin 20))
                        (jdiv (theta c) (Fin 2)) (jdiv (jneg (theta c)) (Fin 2)) True];
                   bodyMesh =
                     newMesh (ExtrudeGeometry shape (heightMm c) False 12)
                       [Translate (Fin 0) (Fin 0) (jdiv (jneg (heightMm c)) (Fin 2)),
                        RotateX (jdiv (jneg Math_PI) (Fin 2)),
                        RotateY (jdiv Math_PI (Fin 2)),
                        Translate (Fin 0) (Fin 0) (radius c)]
                       BodyMaterial
               in group0\<lparr>children := [bodyMesh, screenMesh]\<rparr>);
          group2 =
            (if truthy (isPortrait c)
             then group1\<lparr>rotation := (rotation group1)\<lparr>vz := jdiv (jneg Math_PI) (Fin 2)\<rparr>\<rparr>
             else group1);
          group3 =
            group2\<lparr>userData :=
              Some \<lparr>ud_id = cid c, ud_isMonitor = True,
                    ud_distanceToBottom = distanceToBottom c,
                    ud_locked = truthy (locked c),
                    ud_parentId = None, ud_isMonitorPart = False\<rparr>\<rparr>
      in traverseTag (cid c) group3)"

section \<open>SceneManager\<close>

text \<open>
  The part of the scene manager that \<open>addOrUpdateMonitor\<close> reads and writes: the list
  \<open>monitors\<close> and the object attached to the transform controls. Objects are compared
  by value.
\<close>

record sceneManager =
  monitors :: "group list"
  attached :: "group option"

record transform =
  t_position :: vec3
  t_rotation :: vec3

fun findIndex :: "('a \<Rightarrow> bool) \<Rightarrow> 'a list \<Rightarrow> nat option" where
  "findIndex p [] = None"
| "findIndex p (x # xs) =
     (if p x then Some 0 else map_option Suc (findIndex p xs))"

definition hasId :: "nat \<Rightarrow> group \<Rightarrow> bool" where
  "hasId i m = (case userData m of None \<Rightarrow> False | Some u \<Rightarrow> ud_id u = i)"

definition removeMonitorMesh :: "nat \<Rightarrow> sceneManager \<Rightarrow> sceneManager" where
  "removeMonitorMesh i s =
     (case findIndex (hasId i) (monitors s) of
        None \<Rightarrow> s
      | Some idx \<Rightarrow>
          let obj = monitors s ! idx
          in s\<lparr>attached := (if attached s = Some obj then None else attached s),
               monitors := take idx (monitors s) @ drop (Suc idx) (monitors s)\<rparr>)"

definition selectMonitor :: "group \<Rightarrow> sceneManager \<Rightarrow> sceneManager" where
  "selectMonitor obj s = s\<lparr>attached := Some obj\<rparr>"

text \<open>
  The branch of \<open>addOrUpdateMonitor\<close> on \<open>prevTransform\<close>, lines 257 to 263; reading
  \<open>distanceToBottom\<close> from empty user data gives \<open>undefined\<close>, and \<open>undefined + 50\<close> is
  \<open>NaN\<close>.
\<close>

definition placeMonitor :: "group \<Rightarrow> transform option \<Rightarrow> group" where
  "placeMonitor g prevTransform =
     (case prevTransform of
        Some pt \<Rightarrow>
          g\<lparr>position := t_position pt,
            rotation := (rotation g)\<lparr>vx := vx (t_rotation pt), vy := vy (t_rotation pt)\<rparr>\<rparr>
      | None \<Rightarrow>
          g\<lparr>position :=
              \<lparr>vx = Fin 0,
               vy = jadd (case userData g of Some u \<Rightarrow> ud_distanceToBottom u | None \<Rightarrow> NaN)
                         (Fin 50),
               vz = Fin 0\<rparr>\<rparr>)"

definition addOrUpdateMonitor :: "config \<Rightarrow> transform option \<Rightarrow> sceneManager \<Rightarrow> sceneManager" where
  "addOrUpdateMonitor c prevTransform s =
     (let s1 = removeMonitorMesh (cid c) s;
          grp = placeMonitor (createMonitor c) prevTransform;
          s2 = s1\<lparr>monitors := monitors s1 @ [grp]\<rparr>
      in if \<not> truthy (locked c) then selectMonitor grp s2 else s2)"

section \<open>Concrete configurations\<close>

text \<open>The configuration that \<open>App.addMonitor\<close> creates for the first monitor.\<close>

definition defaultConfig :: config where
  "defaultConfig =
     \<lparr>cid = 1, cname = ''Monitor 1'', inches = JNum (Fin 27), ratioW = JNum (Fin 16),
      ratioH = JNum (Fin 9), curvature = JNum (Fin 0), isPortrait = JBool False,
      locked = JBool False\<rparr>"

text \<open>
  The same monitor switched to curved (\<open>App.setCurvatureType\<close> stores the radius 1500),
  and with the radius at which the width of the default monitor equals
  \<open>0.95 * 2 * pi * radius\<close>.
\<close>

definition curvedConfig :: config where
  "curvedConfig = defaultConfig\<lparr>curvature := JNum (Fin 1500)\<rparr>"

definition defaultWidth :: real where
  "defaultWidth = sqrt ((27 * 25.4)\<^sup>2 / ((16 / 9)\<^sup>2 + 1)) * (16 / 9)"

definition boundaryConfig :: config where
  "boundaryConfig = defaultConfig\<lparr>curvature := JNum (Fin (defaultWidth / (0.95 * (2 * pi))))\<rparr>"



text \<open>A transform a monitor was dragged and rotated to, and the scene before the first monitor.\<close>

definition draggedTransform :: transform where
  "draggedTransform =
     \<lparr>t_position = \<lparr>vx = Fin 120, vy = Fin 400, vz = Fin (- 35)\<rparr>,
      t_rotation = \<lparr>vx = Fin 0.25, vy = Fin (- 0.5), vz = Fin 1\<rparr>\<rparr>"

definition emptyScene :: sceneManager where
  "emptyScene = \<lparr>monitors = [], attached = None\<rparr>"


section \<open>Clamping of the size and ratio inputs\<close>

lemma Math_max_jor:
  "d \<noteq> 0 \<Longrightarrow> Math_max (Fin lo) (jor n (Fin d)) =
     (case n of Fin x \<Rightarrow> Fin (max lo (if x = 0 then d else x))
      | PosInf \<Rightarrow> PosInf | NegInf \<Rightarrow> Fin lo | NaN \<Rightarrow> Fin (max lo d))"
  by (cases n) (auto simp: Math_max_def jor_def max_def)

lemma inches'_eval:
  "inches' c = (case parseFloat (inches c) of Fin x \<Rightarrow> Fin (if x = 0 then 27 else max 1 x)
      | PosInf \<Rightarrow> PosInf | NegInf \<Rightarrow> Fin 1 | NaN \<Rightarrow> Fin 27)"
  unfolding inches'_def by (simp add: Math_max_jor split: jsnum.splits)

lemma ratioW'_eval:
  "ratioW' c = (case parseFloat (ratioW c) of Fin x \<Rightarrow> Fin (if x = 0 then 16 else max 0.1 x)
      | PosInf \<Rightarrow> PosInf | NegInf \<Rightarrow> Fin 0.1 | NaN \<Rightarrow> Fin 16)"
  unfolding ratioW'_def by (simp add: Math_max_jor split: jsnum.splits)

lemma ratioH'_eval:
  "ratioH' c = (case parseFloat (ratioH c) of Fin x \<Rightarrow> Fin (if x = 0 then 9 else max 0.1 x)
      | PosInf \<Rightarrow> PosInf | NegInf \<Rightarrow> Fin 0.1 | NaN \<Rightarrow> Fin 9)"
  unfolding ratioH'_def by (simp add: Math_max_jor split: jsnum.splits)

section \<open>Panel dimensions\<close>

lemma dims_finite:
  assumes i: "inches' c = Fin i" and w: "ratioW' c = Fin a" and h: "ratioH' c = Fin b"
    and pos: "0 < i" "0 < a" "0 < b"
  shows "heightMm c = Fin (sqrt ((i * 25.4)\<^sup>2 / ((a / b)\<^sup>2 + 1)))"
    and "widthMm c = Fin (sqrt ((i * 25.4)\<^sup>2 / ((a / b)\<^sup>2 + 1)) * (a / b))"
proof -
  have r: "ratio c = Fin (a / b)"
    using pos by (simp add: ratio_def w h)
  have d: "diagonalMm c = Fin (i * 25.4)"
    by (simp add: diagonalMm_def i)
  have nn: "\<not> (i * 25.4) * (i * 25.4) / (a / b * (a / b) + 1) < 0"
    by (simp add: not_less add_nonneg_nonneg)
  have ne: "a / b * (a / b) + 1 \<noteq> 0"
    by (metis add_nonneg_pos less_numeral_extra(1) less_irrefl zero_le_square)
  show "heightMm c = Fin (sqrt ((i * 25.4)\<^sup>2 / ((a / b)\<^sup>2 + 1)))"
    using nn ne by (simp add: heightMm_def r d power2_eq_square)
  then show "widthMm c = Fin (sqrt ((i * 25.4)\<^sup>2 / ((a / b)\<^sup>2 + 1)) * (a / b))"
    by (simp add: widthMm_def r)
qed

lemma rect_solution:
  fixes d r :: real
  assumes "0 < d" "0 < r"
  defines "h \<equiv> sqrt (d\<^sup>2 / (r\<^sup>2 + 1))"
  shows "0 < h" "0 < h * r" "h * r / h = r" "(h * r)\<^sup>2 + h\<^sup>2 = d\<^sup>2"
proof -
  have p: "0 < r\<^sup>2 + 1" by (simp add: add_nonneg_pos)
  have q: "0 < d\<^sup>2 / (r\<^sup>2 + 1)" using assms p by simp
  show h: "0 < h" unfolding h_def using q by simp
  show "0 < h * r" using h assms by simp
  show "h * r / h = r" using h by simp
  have hh: "h\<^sup>2 = d\<^sup>2 / (r\<^sup>2 + 1)" unfolding h_def using q by simp
  have "(h * r)\<^sup>2 + h\<^sup>2 = h\<^sup>2 * (r\<^sup>2 + 1)"
    by (simp add: power_mult_distrib algebra_simps)
  also have "\<dots> = (d\<^sup>2 / (r\<^sup>2 + 1)) * (r\<^sup>2 + 1)" by (simp only: hh)
  also have "\<dots> = d\<^sup>2" using p by simp
  finally show "(h * r)\<^sup>2 + h\<^sup>2 = d\<^sup>2" .
qed




section \<open>Curvature gate\<close>


lemma ratioW'_range:
  "(case ratioW' c of Fin x \<Rightarrow> 0.1 \<le> x | PosInf \<Rightarrow> True | NegInf \<Rightarrow> False | NaN \<Rightarrow> False)"
  by (simp add: ratioW'_eval max_def split: jsnum.splits)

lemma ratioH'_range:
  "(case ratioH' c of Fin x \<Rightarrow> 0.1 \<le> x | PosInf \<Rightarrow> True | NegInf \<Rightarrow> False | NaN \<Rightarrow> False)"
  by (simp add: ratioH'_eval max_def split: jsnum.splits)

lemma ratio_not_negative: "\<not> jlt (ratio c) (Fin 0)"
  using ratioW'_range [of c] ratioH'_range [of c]
  by (cases "ratioW' c"; cases "ratioH' c")
     (auto simp: ratio_def ofSign_def not_less divide_less_0_iff)

lemma jsqrt_not_negative: "\<not> jlt (jsqrt a) (Fin 0)"
  by (cases a) (simp_all add: not_less)

lemma jmul_not_negative:
  "\<not> jlt a (Fin 0) \<Longrightarrow> \<not> jlt b (Fin 0) \<Longrightarrow> \<not> jlt (jmul a b) (Fin 0)"
  by (cases a; cases b) (simp_all add: not_less ofSign_def sgn_real_def)

lemma widthMm_not_negative: "\<not> jlt (widthMm c) (Fin 0)"
  unfolding widthMm_def heightMm_def
  by (intro jmul_not_negative jsqrt_not_negative ratio_not_negative)

lemma isValidCurvature_iff:
  "isValidCurvature c \<longleftrightarrow>
     (\<exists>R W. radius c = Fin R \<and> widthMm c = Fin W \<and> 0 < R \<and> R < 10000
            \<and> W < 0.95 * (2 * pi * R))"
proof (cases "radius c")
  case (Fin R)
  show ?thesis
  proof (cases "widthMm c")
    case NegInf
    with widthMm_not_negative [of c] show ?thesis by simp
  qed (auto simp: isValidCurvature_def Fin jgt_def Math_PI_def mult.commute)
qed (simp_all add: isValidCurvature_def jgt_def)

lemma geometry_flat:
  "\<not> isValidCurvature c \<Longrightarrow>
     map geometry (children (createMonitor c)) =
       [BoxGeometry (widthMm c) (heightMm c) (Fin 20), PlaneGeometry (widthMm c) (heightMm c)]"
  by (simp add: createMonitor_def Let_def traverseTag_def newMesh_def newGroup_def)

lemma geometry_curved:
  "isValidCurvature c \<Longrightarrow>
     map geometry (children (createMonitor c)) =
       [ExtrudeGeometry
          [Absarc (Fin 0) (Fin 0) (radius c)
             (jdiv (jneg (theta c)) (Fin 2)) (jdiv (theta c) (Fin 2)) False,
           Absarc (Fin 0) (Fin 0) (jadd (radius c) (Fin 20))
             (jdiv (theta c) (Fin 2)) (jdiv (jneg (theta c)) (Fin 2)) True]
          (heightMm c) False 12,
        CylinderGeometry (radius c) (radius c) (heightMm c) 32 1 True (thetaStart c) (theta c)]"
  by (simp add: createMonitor_def Let_def traverseTag_def newMesh_def newGroup_def)

lemma geomOps_curved:
  "isValidCurvature c \<Longrightarrow>
     map geomOps (children (createMonitor c)) =
       [[Translate (Fin 0) (Fin 0) (jdiv (jneg (heightMm c)) (Fin 2)),
         RotateX (jdiv (jneg Math_PI) (Fin 2)), RotateY (jdiv Math_PI (Fin 2)),
         Translate (Fin 0) (Fin 0) (radius c)],
        [Translate (Fin 0) (Fin 0) (jadd (radius c) (Fin 0.5))]]"
  by (simp add: createMonitor_def Let_def traverseTag_def newMesh_def newGroup_def)

lemma default_dims:
  assumes "inches c = JNum (Fin 27)" "ratioW c = JNum (Fin 16)" "ratioH c = JNum (Fin 9)"
  shows "widthMm c = Fin defaultWidth"
    and "heightMm c = Fin (sqrt ((27 * 25.4)\<^sup>2 / ((16 / 9)\<^sup>2 + 1)))"
proof -
  have i: "inches' c = Fin 27" using assms by (simp add: inches'_eval)
  have a: "ratioW' c = Fin 16" using assms by (simp add: ratioW'_eval)
  have b: "ratioH' c = Fin 9" using assms by (simp add: ratioH'_eval)
  show "widthMm c = Fin defaultWidth"
    and "heightMm c = Fin (sqrt ((27 * 25.4)\<^sup>2 / ((16 / 9)\<^sup>2 + 1)))"
    using dims_finite [OF i a b] by (simp_all add: defaultWidth_def)
qed

lemma defaultWidth_bounds: "0 < defaultWidth" "defaultWidth \<le> 1219.2"
proof -
  have "0 < sqrt ((27 * 25.4)\<^sup>2 / ((16 / 9)\<^sup>2 + 1)) * (16 / 9 :: real)"
    by (rule rect_solution) simp_all
  then show "0 < defaultWidth" by (simp add: defaultWidth_def)
  have "sqrt ((27 * 25.4)\<^sup>2 / ((16 / 9)\<^sup>2 + 1)) \<le> sqrt ((27 * 25.4 :: real)\<^sup>2)"
    by (rule real_sqrt_le_mono) (simp add: field_simps)
  then have "sqrt ((27 * 25.4)\<^sup>2 / ((16 / 9)\<^sup>2 + 1)) \<le> (27 * 25.4 :: real)"
    by simp
  then show "defaultWidth \<le> 1219.2" by (simp add: defaultWidth_def)
qed

lemma curvedConfig_valid: "isValidCurvature curvedConfig"
proof -
  have w: "widthMm curvedConfig = Fin defaultWidth"
    by (rule default_dims) (simp_all add: curvedConfig_def defaultConfig_def)
  have r: "radius curvedConfig = Fin 1500"
    by (simp add: radius_def curvedConfig_def)
  have "defaultWidth < 0.95 * (2 * pi * 1500)"
    using defaultWidth_bounds(2) pi_ge_two by simp
  then show ?thesis
    by (simp add: isValidCurvature_iff w r)
qed

text \<open>
  Claim C2. Curvature is accepted if and only if the parsed radius \<open>R\<close> and the computed
  width \<open>W\<close> are finite numbers with \<open>0 < R < 10000\<close> and \<open>W < 0.95 * 2 * pi * R\<close>, all
  inequalities strict. An accepted curvature yields the cylinder as screen geometry; a
  rejected one yields the plane and the box with the same width and height.
\<close>

theorem C2_curvature_gate:
  "(isValidCurvature c \<longleftrightarrow>
      (\<exists>R W. radius c = Fin R \<and> widthMm c = Fin W \<and> 0 < R \<and> R < 10000
             \<and> W < 0.95 * (2 * pi * R)))
   \<and> (if isValidCurvature c
      then \<exists>body. map geometry (children (createMonitor c)) =
             [body, CylinderGeometry (radius c) (radius c) (heightMm c) 32 1 True
                      (thetaStart c) (theta c)]
      else map geometry (children (createMonitor c)) =
             [BoxGeometry (widthMm c) (heightMm c) (Fin 20),
              PlaneGeometry (widthMm c) (heightMm c)])"
  using isValidCurvature_iff [of c] geometry_flat [of c] geometry_curved [of c]
  by simp

text \<open>
  At the exact boundary \<open>W = 0.95 * 2 * pi * R\<close> the curvature is rejected and the
  descriptor is flat.
\<close>

theorem C2_curvature_gate_witness:
  "radius boundaryConfig = Fin (defaultWidth / (0.95 * (2 * pi)))
   \<and> widthMm boundaryConfig = Fin (0.95 * (2 * pi * (defaultWidth / (0.95 * (2 * pi)))))
   \<and> 0 < defaultWidth / (0.95 * (2 * pi))
   \<and> defaultWidth / (0.95 * (2 * pi)) < 10000
   \<and> \<not> isValidCurvature boundaryConfig
   \<and> map geometry (children (createMonitor boundaryConfig)) =
       [BoxGeometry (widthMm boundaryConfig) (heightMm boundaryConfig) (Fin 20),
        PlaneGeometry (widthMm boundaryConfig) (heightMm boundaryConfig)]"
proof -
  let ?R = "defaultWidth / (0.95 * (2 * pi))"
  have r: "radius boundaryConfig = Fin ?R"
    by (simp add: radius_def boundaryConfig_def)
  have w: "widthMm boundaryConfig = Fin defaultWidth"
    by (rule default_dims) (simp_all add: boundaryConfig_def defaultConfig_def)
  have e: "0.95 * (2 * pi * ?R) = defaultWidth"
    by simp
  have p: "0 < ?R"
    using defaultWidth_bounds(1) by simp
  have "defaultWidth < 10000 * (0.95 * (2 * pi))"
    using defaultWidth_bounds(2) pi_ge_two by simp
  then have q: "?R < 10000"
    by (simp add: pos_divide_less_eq)
  have n: "\<not> isValidCurvature boundaryConfig"
    using C2_curvature_gate [of boundaryConfig] r w e by simp
  then have "map geometry (children (createMonitor boundaryConfig)) =
       [BoxGeometry (widthMm boundaryConfig) (heightMm boundaryConfig) (Fin 20),
        PlaneGeometry (widthMm boundaryConfig) (heightMm boundaryConfig)]"
    using C2_curvature_gate [of boundaryConfig] by simp
  with r w e p q n show ?thesis by simp
qed

text \<open>
  Claim C4. Whenever the curvature is accepted, the radius \<open>R\<close> and the width \<open>W\<close> are
  finite, the arc angle is \<open>W / R\<close> (so that \<open>R * theta = W\<close>), and the screen is the
  cylinder of radius \<open>R\<close> and of the panel height that starts at \<open>pi - theta / 2\<close> and
  spans \<open>theta\<close>.
\<close>

theorem C4_arc_angle:
  assumes "isValidCurvature c"
  shows "\<exists>R W. radius c = Fin R \<and> widthMm c = Fin W \<and> 0 < R
           \<and> theta c = Fin (W / R) \<and> R * (W / R) = W
           \<and> (\<exists>body. map geometry (children (createMonitor c)) =
                 [body, CylinderGeometry (Fin R) (Fin R) (heightMm c) 32 1 True
                          (Fin (pi - W / R / 2)) (Fin (W / R))])"
proof -
  from assms obtain R W where rw: "radius c = Fin R" "widthMm c = Fin W" "0 < R"
    unfolding isValidCurvature_iff by blast
  have t: "theta c = Fin (W / R)"
    using rw by (simp add: theta_def)
  have ts: "thetaStart c = Fin (pi - W / R / 2)"
    by (simp add: thetaStart_def t jsub_def Math_PI_def)
  have "R * (W / R) = W" using rw by simp
  with rw t ts geometry_curved [OF assms] show ?thesis by simp
qed

theorem C4_arc_angle_witness:
  "isValidCurvature curvedConfig
   \<and> radius curvedConfig = Fin 1500
   \<and> widthMm curvedConfig = Fin defaultWidth
   \<and> theta curvedConfig = Fin (defaultWidth / 1500)
   \<and> (\<exists>body. map geometry (children (createMonitor curvedConfig)) =
         [body, CylinderGeometry (Fin 1500) (Fin 1500) (heightMm curvedConfig) 32 1 True
                  (Fin (pi - defaultWidth / 1500 / 2)) (Fin (defaultWidth / 1500))])"
proof -
  have w: "widthMm curvedConfig = Fin defaultWidth"
    by (rule default_dims) (simp_all add: curvedConfig_def defaultConfig_def)
  have r: "radius curvedConfig = Fin 1500"
    by (simp add: radius_def curvedConfig_def)
  from C4_arc_angle [OF curvedConfig_valid] w r curvedConfig_valid
  show ?thesis by auto
qed

text \<open>
  Claim C5, as amended. Whenever the curvature is accepted, the curved screen surface is
  moved forward by \<open>radius + 0.5\<close>, and the body is, as its last operation, moved forward
  by exactly \<open>radius\<close>.
\<close>

theorem C5_forward_offset:
  assumes "isValidCurvature c"
  shows "\<exists>R. radius c = Fin R
           \<and> map geomOps (children (createMonitor c)) =
               [[Translate (Fin 0) (Fin 0) (jdiv (jneg (heightMm c)) (Fin 2)),
                 RotateX (Fin (- pi / 2)), RotateY (Fin (pi / 2)),
                 Translate (Fin 0) (Fin 0) (Fin R)],
                [Translate (Fin 0) (Fin 0) (Fin (R + 0.5))]]"
proof -
  from assms obtain R where r: "radius c = Fin R"
    unfolding isValidCurvature_iff by blast
  show ?thesis
    using geomOps_curved [OF assms] by (simp add: r Math_PI_def)
qed

theorem C5_forward_offset_witness:
  "isValidCurvature curvedConfig
   \<and> map geomOps (children (createMonitor curvedConfig)) =
       [[Translate (Fin 0) (Fin 0) (jdiv (jneg (heightMm curvedConfig)) (Fin 2)),
         RotateX (Fin (- pi / 2)), RotateY (Fin (pi / 2)),
         Translate (Fin 0) (Fin 0) (Fin 1500)],
        [Translate (Fin 0) (Fin 0) (Fin 1500.5)]]"
proof -
  have r: "radius curvedConfig = Fin 1500"
    by (simp add: radius_def curvedConfig_def)
  from C5_forward_offset [OF curvedConfig_valid] r curvedConfig_valid
  show ?thesis by auto
qed

text \<open>
  Claim C5 as stated fails: for the accepted radius \<open>1500\<close> the screen surface is moved
  forward by \<open>1500.5\<close>, not by \<open>1500\<close>.
\<close>

theorem C5_counterexample:
  "isValidCurvature curvedConfig
   \<and> radius curvedConfig = Fin 1500
   \<and> geomOps (children (createMonitor curvedConfig) ! 1)
       = [Translate (Fin 0) (Fin 0) (Fin 1500.5)]
   \<and> geomOps (children (createMonitor curvedConfig) ! 1)
       \<noteq> [Translate (Fin 0) (Fin 0) (radius curvedConfig)]"
proof -
  have r: "radius curvedConfig = Fin 1500"
    by (simp add: radius_def curvedConfig_def)
  have "map geomOps (children (createMonitor curvedConfig)) ! 1
          = [Translate (Fin 0) (Fin 0) (Fin 1500.5)]"
    by (simp add: geomOps_curved [OF curvedConfig_valid] r)
  moreover have "length (children (createMonitor curvedConfig)) = 2"
    using arg_cong [OF geomOps_curved [OF curvedConfig_valid], of length] by simp
  ultimately have "geomOps (children (createMonitor curvedConfig) ! 1)
          = [Translate (Fin 0) (Fin 0) (Fin 1500.5)]"
    by simp
  with r curvedConfig_valid show ?thesis by simp
qed

section \<open>Degenerate inputs\<close>






section \<open>Portrait flag, user data and placement\<close>

lemma userData_createMonitor:
  "userData (createMonitor c) =
     Some \<lparr>ud_id = cid c, ud_isMonitor = True, ud_distanceToBottom = distanceToBottom c,
           ud_locked = truthy (locked c), ud_parentId = Some (cid c),
           ud_isMonitorPart = True\<rparr>"
  by (simp add: createMonitor_def Let_def traverseTag_def newGroup_def)

lemma rotation_createMonitor:
  "rotation (createMonitor c) =
     \<lparr>vx = Fin 0, vy = Fin 0, vz = (if truthy (isPortrait c) then Fin (- pi / 2) else Fin 0)\<rparr>"
  by (simp add: createMonitor_def Let_def traverseTag_def newGroup_def Math_PI_def)

lemma geometry_createMonitor:
  "map geometry (children (createMonitor c)) =
     (if isValidCurvature c
      then [ExtrudeGeometry
              [Absarc (Fin 0) (Fin 0) (radius c)
                 (jdiv (jneg (theta c)) (Fin 2)) (jdiv (theta c) (Fin 2)) False,
               Absarc (Fin 0) (Fin 0) (jadd (radius c) (Fin 20))
                 (jdiv (theta c) (Fin 2)) (jdiv (jneg (theta c)) (Fin 2)) True]
              (heightMm c) False 12,
            CylinderGeometry (radius c) (radius c) (heightMm c) 32 1 True
              (thetaStart c) (theta c)]
      else [BoxGeometry (widthMm c) (heightMm c) (Fin 20),
            PlaneGeometry (widthMm c) (heightMm c)])"
  using geometry_flat [of c] geometry_curved [of c] by simp


lemma dims_cong:
  assumes "inches c1 = inches c2" and "ratioW c1 = ratioW c2" and "ratioH c1 = ratioH c2"
  shows "widthMm c1 = widthMm c2" and "heightMm c1 = heightMm c2"
  using assms
  by (simp_all add: widthMm_def heightMm_def ratio_def diagonalMm_def inches'_def
        ratioW'_def ratioH'_def)

lemma gate_cong:
  assumes "inches c1 = inches c2" and "ratioW c1 = ratioW c2" and "ratioH c1 = ratioH c2"
    and "curvature c1 = curvature c2"
  shows "radius c1 = radius c2" and "isValidCurvature c1 = isValidCurvature c2"
    and "theta c1 = theta c2" and "thetaStart c1 = thetaStart c2"
  using assms dims_cong [OF assms(1-3)]
  by (simp_all add: radius_def isValidCurvature_def theta_def thetaStart_def)

lemma last_monitors_addOrUpdateMonitor:
  "last (monitors (addOrUpdateMonitor c pt s)) = placeMonitor (createMonitor c) pt"
  by (simp add: addOrUpdateMonitor_def Let_def selectMonitor_def)

text \<open>
  Claim C6. The \<open>distanceToBottom\<close> stored with the monitor is half the width when
  \<open>isPortrait\<close> is true and half the height when it is false. Changing \<open>isPortrait\<close>
  alone leaves width, height and the geometry built from them unchanged, and flipping it
  swaps \<open>distanceToBottom\<close> between half the width and half the height.
\<close>

theorem C6_distanceToBottom:
  "map_option ud_distanceToBottom (userData (createMonitor c)) =
     Some (if truthy (isPortrait c) then jdiv (widthMm c) (Fin 2)
           else jdiv (heightMm c) (Fin 2))
   \<and> map_option ud_distanceToBottom
        (userData (createMonitor (c\<lparr>isPortrait := JBool (\<not> truthy (isPortrait c))\<rparr>))) =
     Some (if truthy (isPortrait c) then jdiv (heightMm c) (Fin 2)
           else jdiv (widthMm c) (Fin 2))
   \<and> widthMm (c\<lparr>isPortrait := p\<rparr>) = widthMm c
   \<and> heightMm (c\<lparr>isPortrait := p\<rparr>) = heightMm c
   \<and> map geometry (children (createMonitor (c\<lparr>isPortrait := p\<rparr>))) =
       map geometry (children (createMonitor c))"
proof -
  have d: "widthMm (c\<lparr>isPortrait := q\<rparr>) = widthMm c"
    "heightMm (c\<lparr>isPortrait := q\<rparr>) = heightMm c" for q
    by (rule dims_cong; simp)+
  have g: "isValidCurvature (c\<lparr>isPortrait := p\<rparr>) = isValidCurvature c"
    "radius (c\<lparr>isPortrait := p\<rparr>) = radius c"
    "theta (c\<lparr>isPortrait := p\<rparr>) = theta c"
    "thetaStart (c\<lparr>isPortrait := p\<rparr>) = thetaStart c"
    by (rule gate_cong; simp)+
  show ?thesis
    by (simp add: userData_createMonitor distanceToBottom_def d g geometry_createMonitor)
qed

text \<open>The default monitor, landscape and then portrait.\<close>

theorem C6_distanceToBottom_witness:
  "map_option ud_distanceToBottom (userData (createMonitor defaultConfig)) =
     Some (jdiv (heightMm defaultConfig) (Fin 2))
   \<and> map_option ud_distanceToBottom
        (userData (createMonitor (defaultConfig\<lparr>isPortrait := JBool True\<rparr>))) =
     Some (jdiv (widthMm defaultConfig) (Fin 2))
   \<and> widthMm (defaultConfig\<lparr>isPortrait := JBool True\<rparr>) = widthMm defaultConfig
   \<and> heightMm (defaultConfig\<lparr>isPortrait := JBool True\<rparr>) = heightMm defaultConfig"
proof -
  have t: "\<not> truthy (isPortrait defaultConfig)"
    by (simp add: defaultConfig_def)
  show ?thesis
    using C6_distanceToBottom [of defaultConfig "JBool True"] t by simp
qed



text \<open>
  Claim C9. A monitor rebuilt by \<open>addOrUpdateMonitor\<close> with a previous transform has the
  previous position and the previous rotation about x and y; its rotation about z is
  \<open>-pi / 2\<close> when the portrait flag is true and \<open>0\<close> otherwise, whatever the previous
  rotation about z was.
\<close>

theorem C9_previous_transform:
  "position (last (monitors (addOrUpdateMonitor c (Some pt) s))) = t_position pt
   \<and> rotation (last (monitors (addOrUpdateMonitor c (Some pt) s))) =
       \<lparr>vx = vx (t_rotation pt), vy = vy (t_rotation pt),
        vz = (if truthy (isPortrait c) then Fin (- pi / 2) else Fin 0)\<rparr>"
  by (simp add: last_monitors_addOrUpdateMonitor placeMonitor_def rotation_createMonitor)

text \<open>A landscape monitor rebuilt after it was rotated by 1 about z: the rotation about z is 0.\<close>

theorem C9_previous_transform_witness:
  "position (last (monitors (addOrUpdateMonitor defaultConfig (Some draggedTransform) emptyScene)))
     = \<lparr>vx = Fin 120, vy = Fin 400, vz = Fin (- 35)\<rparr>
   \<and> rotation (last (monitors (addOrUpdateMonitor defaultConfig (Some draggedTransform) emptyScene)))
     = \<lparr>vx = Fin 0.25, vy = Fin (- 0.5), vz = Fin 0\<rparr>
   \<and> vz (t_rotation draggedTransform) = Fin 1"
  using C9_previous_transform [of defaultConfig draggedTransform emptyScene]
  by (simp add: draggedTransform_def defaultConfig_def)



section \<open>Every input yields a descriptor\<close>








end
